theory Spec2Isabelle
  imports Main
begin

text \<open>
  The library manager of the H5P Node.js library (\<open>src/LibraryManager.ts\<close>): the
  decision between a new installation, a patch update and no installation, the copy of
  the library files with the rollback by deletion, the consistency check and the
  queries over the installed libraries. The manager is asynchronous and works on a
  storage it is given. Here every function of the manager takes the storage, and the
  file system it reads from, as arguments; a function that only reads takes the state of
  the storage and returns a result or an error, and a function that writes returns the
  new state as well. Storage operations run one at a time, in the order in which the
  manager starts them.
\<close>

section \<open>Data model\<close>

text \<open>
  \<open>ILibraryName\<close>: the identity of a library line. \<open>IFullLibraryName\<close> adds the patch
  version and \<open>ILibraryMetadata\<close> the fields of library.json that the manager reads.
  TypeScript passes a metadata object wherever a name is expected; the records extend
  each other in the same way. \<open>preloadedJs\<close> and \<open>preloadedCss\<close> are optional lists of
  \<open>{path}\<close> objects: \<open>None\<close> is a missing (undefined) property, and an empty list is
  a present one (an empty array is truthy in JavaScript).
\<close>

record library_name =
  machineName :: string
  majorVersion :: int
  minorVersion :: int

record full_library_name = library_name +
  patchVersion :: int

record library_metadata = full_library_name +
  title :: string
  runnable :: bool
  preloadedJs :: "string list option"
  preloadedCss :: "string list option"

text \<open>What TypeScript's structural typing does when a wider object is read as a name.\<close>

definition nameOf :: "'a library_name_scheme \<Rightarrow> library_name" where
  "nameOf l = \<lparr>machineName = machineName l, majorVersion = majorVersion l,
     minorVersion = minorVersion l\<rparr>"

definition fullNameOf :: "'a full_library_name_scheme \<Rightarrow> full_library_name" where
  "fullNameOf l = \<lparr>machineName = machineName l, majorVersion = majorVersion l,
     minorVersion = minorVersion l, patchVersion = patchVersion l\<rparr>"

text \<open>
  Errors. The three \<open>H5pError\<close>s that LibraryManager.ts constructs carry their
  replacements: the \<open>name\<close> replacement is \<open>LibraryName.toUberName\<close> of the library, kept
  here as the identity itself, and the \<open>message\<close> replacement of the second is the message
  of the caught error, kept here as the caught error. \<open>TypeError\<close> is what JavaScript
  raises when a property of \<open>undefined\<close> is read. \<open>ExternalError\<close> is any error raised
  by a collaborator (the storage, the file system, the JSON parser), with its message.
\<close>

datatype error =
    ConsistencyCheckNotInstalled library_name
  | ConsistencyCheckLibraryJsonUnreadable error library_name
  | ConsistencyCheckFileMissing "string list" library_name
  | TypeError
  | ExternalError string

text \<open>
  A call to a promise-returning collaborator either throws before it returns, or returns
  a promise that is later rejected or resolved. The difference is visible to a
  \<open>try\<close> block: it catches a synchronous throw and the rejection of an awaited
  promise, but not the rejection of a promise that is returned without \<open>await\<close>.
\<close>

datatype 'a outcome = Threw error | Rejected error | Resolved 'a

fun await :: "'a outcome \<Rightarrow> error + 'a" where
  "await (Threw e) = Inl e"
| "await (Rejected e) = Inl e"
| "await (Resolved v) = Inr v"

text \<open>
  \<open>Promise.all\<close> over promises that have settled: the values in order, or the
  rejection of the first rejected promise in list order.
\<close>

fun Promise_all :: "(error + 'a) list \<Rightarrow> error + 'a list" where
  "Promise_all [] = Inr []"
| "Promise_all (p # ps) =
     (case p of
        Inl e \<Rightarrow> Inl e
      | Inr v \<Rightarrow> (case Promise_all ps of Inl e \<Rightarrow> Inl e | Inr vs \<Rightarrow> Inr (v # vs)))"

text \<open>
  \<open>ILibraryStorage\<close>, the storage the manager is constructed with, over a state \<open>'s\<close>
  and file contents (streams) \<open>'c\<close>. The interface is declared outside
  LibraryManager.ts, so it is a parameter of every operation below. Queries read the
  state; the five mutating operations return the new state, also when they fail.
  Each operation is taken to run to completion when it is called.
\<close>

record ('s, 'c) ILibraryStorage =
  storage_libraryExists :: "library_name \<Rightarrow> 's \<Rightarrow> bool outcome"
  storage_getLibrary :: "library_name \<Rightarrow> 's \<Rightarrow> library_metadata outcome"
  storage_getInstalledLibraryNames :: "string list \<Rightarrow> 's \<Rightarrow> library_name list outcome"
  storage_fileExists :: "library_name \<Rightarrow> string \<Rightarrow> 's \<Rightarrow> bool outcome"
  storage_getFileStream :: "library_name \<Rightarrow> string \<Rightarrow> 's \<Rightarrow> 'c outcome"
  storage_addLibrary :: "library_metadata \<Rightarrow> bool \<Rightarrow> 's \<Rightarrow> library_metadata outcome \<times> 's"
  storage_updateLibrary :: "library_metadata \<Rightarrow> 's \<Rightarrow> unit outcome \<times> 's"
  storage_clearFiles :: "library_name \<Rightarrow> 's \<Rightarrow> unit outcome \<times> 's"
  storage_addFile :: "library_name \<Rightarrow> string \<Rightarrow> 'c \<Rightarrow> 's \<Rightarrow> unit outcome \<times> 's"
  storage_deleteLibrary :: "library_name \<Rightarrow> 's \<Rightarrow> unit outcome \<times> 's"

text \<open>
  The file system as \<open>fs-extra\<close> and \<open>glob\<close> show it. \<open>readJSON\<close> reads and parses
  the file at a path. \<open>entries d\<close> lists what lies below the directory \<open>d\<close>, files
  and directories, each as its path relative to \<open>d\<close>, segment by segment, in the order
  in which glob reports matches. \<open>createReadStream\<close> opens a path for reading.
\<close>

record 'c file_system =
  readJSON :: "string \<Rightarrow> library_metadata outcome"
  entries :: "string \<Rightarrow> string list list"
  createReadStream :: "string \<Rightarrow> 'c"

text \<open>\<open>ILibraryInstallResult\<close>: the \<open>type\<close> tag with the versions that go with it.\<close>

datatype install_result =
    TypeNew full_library_name
  | TypePatch full_library_name full_library_name
  | TypeNone

section \<open>Version comparison and sorting\<close>

text \<open>
  Modelled from the spec: \<open>InstalledLibrary.compareVersions\<close> is defined outside
  LibraryManager.ts. The spec's Version Comparator orders by majorVersion, then
  minorVersion, then patchVersion, and returns a negative, zero or positive number.
\<close>

definition compareVersions ::
  "'a full_library_name_scheme \<Rightarrow> 'b full_library_name_scheme \<Rightarrow> int" where
  "compareVersions a b =
     (if majorVersion a - majorVersion b \<noteq> 0 then majorVersion a - majorVersion b
      else if minorVersion a - minorVersion b \<noteq> 0 then minorVersion a - minorVersion b
      else patchVersion a - patchVersion b)"

text \<open>
  Modelled from the spec: \<open>InstalledLibrary.compare\<close>, which orders a listing, is
  defined outside LibraryManager.ts. The spec sorts listings with the Version Comparator.
\<close>

definition compare :: "library_metadata \<Rightarrow> library_metadata \<Rightarrow> int" where
  "compare lib1 lib2 = compareVersions lib1 lib2"

text \<open>\<open>Array.prototype.sort\<close> with a comparator, as a stable insertion sort.\<close>

fun insert_sorted :: "('a \<Rightarrow> 'a \<Rightarrow> int) \<Rightarrow> 'a \<Rightarrow> 'a list \<Rightarrow> 'a list" where
  "insert_sorted c x [] = [x]"
| "insert_sorted c x (y # ys) =
     (if c x y \<le> 0 then x # y # ys else y # insert_sorted c x ys)"

definition array_sort :: "('a \<Rightarrow> 'a \<Rightarrow> int) \<Rightarrow> 'a list \<Rightarrow> 'a list" where
  "array_sort c xs = foldr (insert_sorted c) xs []"

section \<open>Queries of the library manager\<close>

definition libraryExists :: "('s, 'c) ILibraryStorage \<Rightarrow> library_name \<Rightarrow> 's \<Rightarrow> error + bool" where
  "libraryExists S library s = await (storage_libraryExists S library s)"

text \<open>
  \<open>getLibrary\<close> returns the storage's promise from inside its \<open>try\<close> block without
  awaiting it. The \<open>catch\<close> block therefore runs only when the storage throws before
  returning a promise; a rejected promise becomes the result. \<open>None\<close> is \<open>undefined\<close>.
\<close>

definition getLibrary ::
  "('s, 'c) ILibraryStorage \<Rightarrow> library_name \<Rightarrow> 's \<Rightarrow> error + library_metadata option" where
  "getLibrary S library s =
     (case storage_getLibrary S library s of
        Threw ignored \<Rightarrow> Inr None
      | Rejected e \<Rightarrow> Inl e
      | Resolved info \<Rightarrow> Inr (Some info))"

text \<open>
  \<open>getJsonFile\<close>: the file's stream, read to a string and parsed. \<open>parse\<close> stands for
  \<open>streamToString\<close> followed by \<open>JSON.parse\<close>.
\<close>

definition getJsonFile ::
  "('s, 'c) ILibraryStorage \<Rightarrow> ('c \<Rightarrow> error + 'j) \<Rightarrow> library_name \<Rightarrow> string \<Rightarrow> 's \<Rightarrow> error + 'j" where
  "getJsonFile S parse library file s =
     (case await (storage_getFileStream S library file s) of
        Inl e \<Rightarrow> Inl e
      | Inr stream \<Rightarrow> parse stream)"

text \<open>
  \<open>getLanguage\<close> awaits inside its \<open>try\<close> block, so every failure is caught and
  turned into \<open>null\<close> (\<open>None\<close>). The path is \<open>path.join('language', language + '.json')\<close>
  for a language code without path separators.
\<close>

definition getLanguage ::
  "('s, 'c) ILibraryStorage \<Rightarrow> ('c \<Rightarrow> error + 'j) \<Rightarrow> library_name \<Rightarrow> string \<Rightarrow> 's \<Rightarrow> error + 'j option" where
  "getLanguage S parse library language s =
     (case getJsonFile S parse library (''language/'' @ language @ ''.json'') s of
        Inl ignored \<Rightarrow> Inr None
      | Inr json \<Rightarrow> Inr (Some json))"

text \<open>
  The callback of \<open>listInstalledLibraries\<close>: \<open>InstalledLibrary.fromName\<close> gives an object
  with the three name fields, and the patch version, the runnable flag and the title are
  copied from the metadata. Reading them from \<open>undefined\<close> raises a TypeError.
\<close>

definition hydrate ::
  "('s, 'c) ILibraryStorage \<Rightarrow> 's \<Rightarrow> library_name \<Rightarrow> error + library_metadata" where
  "hydrate S s libName =
     (case getLibrary S libName s of
        Inl e \<Rightarrow> Inl e
      | Inr None \<Rightarrow> Inl TypeError
      | Inr (Some info) \<Rightarrow>
          Inr \<lparr>machineName = machineName libName, majorVersion = majorVersion libName,
               minorVersion = minorVersion libName, patchVersion = patchVersion info,
               title = title info, runnable = runnable info,
               preloadedJs = None, preloadedCss = None\<rparr>)"

text \<open>
  The listing is a plain JavaScript object, \<open>{}\<close>, with machine names as keys. Reading
  \<open>returnObject[name]\<close> finds a property the object has itself, or else one it inherits
  from \<open>Object.prototype\<close>; these inherited values are functions, or for \<open>__proto__\<close> the
  prototype object, all of them truthy, none of them an array. An object is modelled by
  the map of its own properties.
\<close>

definition inheritedProperty :: "string \<Rightarrow> bool" where
  "inheritedProperty name \<longleftrightarrow>
     name \<in> set [''constructor'', ''__defineGetter__'', ''__defineSetter__'',
       ''hasOwnProperty'', ''__lookupGetter__'', ''__lookupSetter__'', ''isPrototypeOf'',
       ''propertyIsEnumerable'', ''toString'', ''valueOf'', ''__proto__'',
       ''toLocaleString'']"

datatype 'a property = Undefined | Inherited | Own 'a

definition getProperty :: "(string \<rightharpoonup> 'a) \<Rightarrow> string \<Rightarrow> 'a property" where
  "getProperty object name =
     (case object name of
        Some v \<Rightarrow> Own v
      | None \<Rightarrow> if inheritedProperty name then Inherited else Undefined)"

text \<open>
  The grouping loop: when \<open>returnObject[library.machineName]\<close> is falsy the property is
  set to an empty array; then the library is pushed onto \<open>returnObject[library.machineName]\<close>.
  An inherited value is truthy and has no \<open>push\<close>: calling it raises a TypeError.
\<close>

definition pushLibrary ::
  "library_metadata \<Rightarrow> (string \<rightharpoonup> library_metadata list)
     \<Rightarrow> error + (string \<rightharpoonup> library_metadata list)" where
  "pushLibrary library returnObject =
     (case getProperty returnObject (machineName library) of
        Undefined \<Rightarrow> Inr (returnObject(machineName library \<mapsto> [library]))
      | Inherited \<Rightarrow> Inl TypeError
      | Own ls \<Rightarrow> Inr (returnObject(machineName library \<mapsto> ls @ [library])))"

fun groupByMachineName ::
  "library_metadata list \<Rightarrow> (string \<rightharpoonup> library_metadata list)
     \<Rightarrow> error + (string \<rightharpoonup> library_metadata list)" where
  "groupByMachineName [] returnObject = Inr returnObject"
| "groupByMachineName (library # libraries) returnObject =
     (case pushLibrary library returnObject of
        Inl e \<Rightarrow> Inl e
      | Inr returnObject' \<Rightarrow> groupByMachineName libraries returnObject')"

definition listInstalledLibraries ::
  "('s, 'c) ILibraryStorage \<Rightarrow> string list \<Rightarrow> 's \<Rightarrow> error + (string \<rightharpoonup> library_metadata list)" where
  "listInstalledLibraries S machineNames s =
     (case await (storage_getInstalledLibraryNames S machineNames s) of
        Inl e \<Rightarrow> Inl e
      | Inr libraries \<Rightarrow>
          (case Promise_all (map (hydrate S s) libraries) of
             Inl e \<Rightarrow> Inl e
           | Inr hydrated \<Rightarrow> groupByMachineName (array_sort compare hydrated) Map.empty))"

text \<open>
  \<open>isPatchedLibrary\<close>: the loop stops at the first installed library of the same major
  and minor version; \<open>None\<close> is \<open>undefined\<close>. An inherited value passes the test
  \<open>!wrappedLibraryInfos[library.machineName]\<close> and is not iterable: the \<open>for\<close> loop
  raises a TypeError.
\<close>

fun firstOfLine ::
  "library_metadata list \<Rightarrow> library_metadata \<Rightarrow> full_library_name option" where
  "firstOfLine [] library = None"
| "firstOfLine (lib # libraryInfos) library =
     (if majorVersion lib = majorVersion library \<and> minorVersion lib = minorVersion library
      then (if patchVersion lib < patchVersion library then Some (fullNameOf lib) else None)
      else firstOfLine libraryInfos library)"

definition isPatchedLibrary ::
  "('s, 'c) ILibraryStorage \<Rightarrow> library_metadata \<Rightarrow> 's \<Rightarrow> error + full_library_name option" where
  "isPatchedLibrary S library s =
     (case listInstalledLibraries S [machineName library] s of
        Inl e \<Rightarrow> Inl e
      | Inr wrappedLibraryInfos \<Rightarrow>
          (case getProperty wrappedLibraryInfos (machineName library) of
             Undefined \<Rightarrow> Inr None
           | Inherited \<Rightarrow> Inl TypeError
           | Own libraryInfos \<Rightarrow> Inr (firstOfLine libraryInfos library)))"


section \<open>The consistency check\<close>

text \<open>
  \<open>checkFiles\<close> asks the storage for every required file, keeps the paths whose status
  is false, and fails with all of them when there is one.
\<close>

definition checkFiles ::
  "('s, 'c) ILibraryStorage \<Rightarrow> library_name \<Rightarrow> string list \<Rightarrow> 's \<Rightarrow> error + bool" where
  "checkFiles S library requiredFiles s =
     (case Promise_all
             (map (\<lambda>file. case await (storage_fileExists S library file s) of
                            Inl e \<Rightarrow> Inl e
                          | Inr status \<Rightarrow> Inr (file, status))
                  requiredFiles) of
        Inl e \<Rightarrow> Inl e
      | Inr checked \<Rightarrow>
          (let missingFiles = map fst (filter (\<lambda>file. \<not> snd file) checked)
           in if length missingFiles > 0
              then Inl (ConsistencyCheckFileMissing missingFiles library)
              else Inr True))"

definition checkConsistency ::
  "('s, 'c) ILibraryStorage \<Rightarrow> library_name \<Rightarrow> 's \<Rightarrow> error + bool" where
  "checkConsistency S library s =
     (case libraryExists S library s of
        Inl e \<Rightarrow> Inl e
      | Inr False \<Rightarrow> Inl (ConsistencyCheckNotInstalled library)
      | Inr True \<Rightarrow>
          (case await (storage_getLibrary S library s) of
             Inl error \<Rightarrow> Inl (ConsistencyCheckLibraryJsonUnreadable error library)
           | Inr metadata \<Rightarrow>
               (case (case preloadedJs metadata of
                        None \<Rightarrow> Inr True
                      | Some js \<Rightarrow> checkFiles S library js s) of
                  Inl e \<Rightarrow> Inl e
                | Inr _ \<Rightarrow>
                    (case (case preloadedCss metadata of
                             None \<Rightarrow> Inr True
                           | Some css \<Rightarrow> checkFiles S library css s) of
                       Inl e \<Rightarrow> Inl e
                     | Inr _ \<Rightarrow> Inr True))))"

section \<open>Asynchronous operations that change the storage\<close>

type_synonym ('s, 'a) async = "'s \<Rightarrow> (error + 'a) \<times> 's"

definition return :: "'a \<Rightarrow> ('s, 'a) async" where
  "return v s = (Inr v, s)"

definition throw :: "error \<Rightarrow> ('s, 'a) async" where
  "throw e s = (Inl e, s)"

text \<open>\<open>andThen m k\<close>: await \<open>m\<close>, then go on with its value; a failure of \<open>m\<close> ends it.\<close>

definition andThen :: "('s, 'a) async \<Rightarrow> ('a \<Rightarrow> ('s, 'b) async) \<Rightarrow> ('s, 'b) async" where
  "andThen m k s = (case m s of (Inl e, s') \<Rightarrow> (Inl e, s') | (Inr v, s') \<Rightarrow> k v s')"

text \<open>\<open>try { body } catch (error) { handler }\<close>\<close>

definition tryCatch :: "('s, 'a) async \<Rightarrow> (error \<Rightarrow> ('s, 'a) async) \<Rightarrow> ('s, 'a) async" where
  "tryCatch body handler s =
     (case body s of (Inl error, s') \<Rightarrow> handler error s' | (Inr v, s') \<Rightarrow> (Inr v, s'))"

text \<open>Awaiting a mutating storage operation, and awaiting a query.\<close>

definition awaitCall :: "('s \<Rightarrow> 'a outcome \<times> 's) \<Rightarrow> ('s, 'a) async" where
  "awaitCall f s = (case f s of (r, s') \<Rightarrow> (await r, s'))"

definition awaitQuery :: "('s \<Rightarrow> error + 'a) \<Rightarrow> ('s, 'a) async" where
  "awaitQuery q s = (q s, s)"

subsection \<open>Copying the files of a directory\<close>

text \<open>
  The glob pattern \<open>fromDirectory/**/*.*\<close>, on a path relative to \<open>fromDirectory\<close>.
  The last segment matches \<open>*.*\<close>: it contains a dot and does not begin with one
  (glob's \<open>*\<close> does not match a leading dot). The segments before it match \<open>**\<close>:
  any number of directories, none beginning with a dot.
\<close>

definition matchesStarDotStar :: "string \<Rightarrow> bool" where
  "matchesStarDotStar segment =
     (case segment of [] \<Rightarrow> False | c # cs \<Rightarrow> c \<noteq> CHR ''.'' \<and> CHR ''.'' \<in> set cs)"

definition visibleSegment :: "string \<Rightarrow> bool" where
  "visibleSegment segment = (case segment of [] \<Rightarrow> False | c # cs \<Rightarrow> c \<noteq> CHR ''.'')"

fun matchesPattern :: "string list \<Rightarrow> bool" where
  "matchesPattern [] = False"
| "matchesPattern [segment] = matchesStarDotStar segment"
| "matchesPattern (segment # rest) = (visibleSegment segment \<and> matchesPattern rest)"

definition globPromise :: "'c file_system \<Rightarrow> string \<Rightarrow> string list list" where
  "globPromise fs fromDirectory = filter matchesPattern (entries fs fromDirectory)"

fun pathJoin :: "string list \<Rightarrow> string" where
  "pathJoin [] = []"
| "pathJoin [segment] = segment"
| "pathJoin (segment # rest) = segment @ ''/'' @ pathJoin rest"

text \<open>
  The \<open>files.map\<close> of \<open>copyLibraryFiles\<close>: the callback runs for one file after the
  other and starts \<open>addFile\<close> for each, except for \<open>library.json\<close>. \<open>fileLocalPath\<close> is
  the path relative to \<open>fromDirectory\<close>, and the stream is opened on the full path. When
  \<open>addFile\<close> throws, \<open>map\<close> ends there; a rejected promise is collected like a
  resolved one, and the files after it are still added.
\<close>

definition collect ::
  "error + unit \<Rightarrow> (error + (error + unit) list) \<times> 's \<Rightarrow> (error + (error + unit) list) \<times> 's" where
  "collect p r = (case r of (Inl e, s) \<Rightarrow> (Inl e, s) | (Inr ps, s) \<Rightarrow> (Inr (p # ps), s))"

fun mapFiles ::
  "('s, 'c) ILibraryStorage \<Rightarrow> 'c file_system \<Rightarrow> string \<Rightarrow> library_name \<Rightarrow> string list list
     \<Rightarrow> 's \<Rightarrow> (error + (error + unit) list) \<times> 's" where
  "mapFiles S fs fromDirectory libraryInfo [] s = (Inr [], s)"
| "mapFiles S fs fromDirectory libraryInfo (file # files) s =
     (let fileLocalPath = pathJoin file
      in if fileLocalPath = ''library.json''
         then collect (Inr ()) (mapFiles S fs fromDirectory libraryInfo files s)
         else (case storage_addFile S libraryInfo fileLocalPath
                      (createReadStream fs (fromDirectory @ ''/'' @ fileLocalPath)) s of
                 (Threw e, s') \<Rightarrow> (Inl e, s')
               | (Rejected e, s') \<Rightarrow>
                   collect (Inl e) (mapFiles S fs fromDirectory libraryInfo files s')
               | (Resolved v, s') \<Rightarrow>
                   collect (Inr ()) (mapFiles S fs fromDirectory libraryInfo files s')))"

definition copyLibraryFiles ::
  "('s, 'c) ILibraryStorage \<Rightarrow> 'c file_system \<Rightarrow> string \<Rightarrow> library_name \<Rightarrow> ('s, unit) async" where
  "copyLibraryFiles S fs fromDirectory libraryInfo s =
     (case mapFiles S fs fromDirectory libraryInfo (globPromise fs fromDirectory) s of
        (Inl e, s') \<Rightarrow> (Inl e, s')
      | (Inr promises, s') \<Rightarrow>
          (case Promise_all promises of Inl e \<Rightarrow> (Inl e, s') | Inr _ \<Rightarrow> (Inr (), s')))"

subsection \<open>Installing and updating\<close>

text \<open>
  \<open>installLibrary\<close> and \<open>updateLibrary\<close> are each a \<open>try\<close> block with a
  \<open>catch\<close> block that deletes the library and throws the caught error again. The two
  blocks of each are named here so that the theorems can speak of them.
\<close>

definition installLibrary_try ::
  "('s, 'c) ILibraryStorage \<Rightarrow> 'c file_system \<Rightarrow> string \<Rightarrow> library_metadata
     \<Rightarrow> library_metadata \<Rightarrow> ('s, library_metadata) async" where
  "installLibrary_try S fs fromDirectory libraryMetadata newLibraryInfo =
     andThen (copyLibraryFiles S fs fromDirectory (nameOf newLibraryInfo)) (\<lambda>_.
     andThen (awaitQuery (checkConsistency S (nameOf libraryMetadata))) (\<lambda>_.
     return newLibraryInfo))"

definition installLibrary_catch ::
  "('s, 'c) ILibraryStorage \<Rightarrow> library_metadata \<Rightarrow> error \<Rightarrow> ('s, 'a) async" where
  "installLibrary_catch S libraryMetadata error =
     andThen (awaitCall (storage_deleteLibrary S (nameOf libraryMetadata))) (\<lambda>_.
     throw error)"

definition installLibrary ::
  "('s, 'c) ILibraryStorage \<Rightarrow> 'c file_system \<Rightarrow> string \<Rightarrow> library_metadata \<Rightarrow> bool
     \<Rightarrow> ('s, library_metadata) async" where
  "installLibrary S fs fromDirectory libraryMetadata restricted =
     andThen (awaitCall (storage_addLibrary S libraryMetadata restricted)) (\<lambda>newLibraryInfo.
       tryCatch (installLibrary_try S fs fromDirectory libraryMetadata newLibraryInfo)
                (installLibrary_catch S libraryMetadata))"

definition updateLibrary_try ::
  "('s, 'c) ILibraryStorage \<Rightarrow> 'c file_system \<Rightarrow> library_metadata \<Rightarrow> string
     \<Rightarrow> ('s, unit) async" where
  "updateLibrary_try S fs newLibraryMetadata filesDirectory =
     andThen (awaitCall (storage_updateLibrary S newLibraryMetadata)) (\<lambda>_.
     andThen (awaitCall (storage_clearFiles S (nameOf newLibraryMetadata))) (\<lambda>_.
     andThen (copyLibraryFiles S fs filesDirectory (nameOf newLibraryMetadata)) (\<lambda>_.
     andThen (awaitQuery (checkConsistency S (nameOf newLibraryMetadata))) (\<lambda>_.
     return ()))))"

definition updateLibrary_catch ::
  "('s, 'c) ILibraryStorage \<Rightarrow> library_metadata \<Rightarrow> error \<Rightarrow> ('s, 'a) async" where
  "updateLibrary_catch S newLibraryMetadata error =
     andThen (awaitCall (storage_deleteLibrary S (nameOf newLibraryMetadata))) (\<lambda>_.
     throw error)"

definition updateLibrary ::
  "('s, 'c) ILibraryStorage \<Rightarrow> 'c file_system \<Rightarrow> library_metadata \<Rightarrow> string
     \<Rightarrow> ('s, unit) async" where
  "updateLibrary S fs newLibraryMetadata filesDirectory =
     tryCatch (updateLibrary_try S fs newLibraryMetadata filesDirectory)
              (updateLibrary_catch S newLibraryMetadata)"

text \<open>
  \<open>installFromDirectory\<close>. \<open>TypePatch\<close> carries \<open>newVersion\<close>, then \<open>oldVersion\<close>.
\<close>

definition installFromDirectory ::
  "('s, 'c) ILibraryStorage \<Rightarrow> 'c file_system \<Rightarrow> string \<Rightarrow> bool
     \<Rightarrow> ('s, install_result) async" where
  "installFromDirectory S fs directory restricted =
     andThen (awaitQuery (\<lambda>s. await (readJSON fs (directory @ ''/library.json''))))
       (\<lambda>newLibraryMetadata.
          let newVersion = fullNameOf newLibraryMetadata
          in andThen (awaitQuery (libraryExists S (nameOf newLibraryMetadata))) (\<lambda>exists.
               if exists
               then andThen (awaitQuery (isPatchedLibrary S newLibraryMetadata)) (\<lambda>oldVersion.
                      case oldVersion of
                        Some old \<Rightarrow>
                          andThen (updateLibrary S fs newLibraryMetadata directory) (\<lambda>_.
                          return (TypePatch newVersion old))
                      | None \<Rightarrow> return TypeNone)
               else andThen (installLibrary S fs directory newLibraryMetadata restricted) (\<lambda>_.
                    return (TypeNew newVersion))))"

section \<open>A reference storage\<close>

text \<open>
  Modelled from the spec: the storage implementations of the repository are not part of
  LibraryManager.ts. This in-memory storage follows the Library Store Port of the spec:
  a slot per identity with its metadata and its files; \<open>getLibrary\<close> and
  \<open>getFileStream\<close> fail when the slot or the file is absent; \<open>deleteLibrary\<close> removes
  the metadata and all files and is idempotent; \<open>clearFiles\<close> keeps the slot. Every
  operation returns a promise. The store keeps a journal of the mutating calls it
  receives, and the operations listed in \<open>faults\<close> are rejected with a storage failure
  and change nothing else. It serves as the concrete storage of the examples.
\<close>

datatype call =
    AddLibrary library_metadata bool
  | UpdateLibrary library_metadata
  | ClearFiles library_name
  | AddFile library_name string
  | DeleteLibrary library_name

datatype operation = OpAddLibrary | OpUpdateLibrary | OpClearFiles | OpAddFile | OpDeleteLibrary

record store =
  slots :: "(library_metadata \<times> (string \<times> string) list) list"
  journal :: "call list"
  faults :: "operation list"

definition findSlot :: "library_name \<Rightarrow> store \<Rightarrow> (library_metadata \<times> (string \<times> string) list) option" where
  "findSlot n st = find (\<lambda>slot. nameOf (fst slot) = n) (slots st)"

definition StoreFailure :: error where
  "StoreFailure = ExternalError ''StoreFailure''"

definition NotFound :: error where
  "NotFound = ExternalError ''NotFound''"

definition mutate ::
  "operation \<Rightarrow> call \<Rightarrow> 'a
     \<Rightarrow> ((library_metadata \<times> (string \<times> string) list) list
          \<Rightarrow> (library_metadata \<times> (string \<times> string) list) list)
     \<Rightarrow> store \<Rightarrow> 'a outcome \<times> store" where
  "mutate op c v change st =
     (if op \<in> set (faults st)
      then (Rejected StoreFailure, st\<lparr>journal := journal st @ [c]\<rparr>)
      else (Resolved v, st\<lparr>slots := change (slots st), journal := journal st @ [c]\<rparr>))"

definition memoryStorage :: "(store, string) ILibraryStorage" where
  "memoryStorage =
     \<lparr>storage_libraryExists = (\<lambda>n st. Resolved (findSlot n st \<noteq> None)),
      storage_getLibrary = (\<lambda>n st.
        case findSlot n st of None \<Rightarrow> Rejected NotFound | Some slot \<Rightarrow> Resolved (fst slot)),
      storage_getInstalledLibraryNames = (\<lambda>machineNames st.
        Resolved (map (\<lambda>slot. nameOf (fst slot))
          (filter (\<lambda>slot. machineNames = [] \<or> machineName (fst slot) \<in> set machineNames)
             (slots st)))),
      storage_fileExists = (\<lambda>n file st.
        Resolved (case findSlot n st of None \<Rightarrow> False
                  | Some slot \<Rightarrow> file \<in> set (map fst (snd slot)))),
      storage_getFileStream = (\<lambda>n file st.
        case findSlot n st of
          None \<Rightarrow> Rejected NotFound
        | Some slot \<Rightarrow>
            (case map_of (snd slot) file of
               None \<Rightarrow> Rejected NotFound
             | Some content \<Rightarrow> Resolved content)),
      storage_addLibrary = (\<lambda>metadata restricted.
        mutate OpAddLibrary (AddLibrary metadata restricted) metadata
          (\<lambda>ss. ss @ [(metadata, [])])),
      storage_updateLibrary = (\<lambda>metadata.
        mutate OpUpdateLibrary (UpdateLibrary metadata) ()
          (map (\<lambda>slot. if nameOf (fst slot) = nameOf metadata
                          then (metadata, snd slot) else slot))),
      storage_clearFiles = (\<lambda>n.
        mutate OpClearFiles (ClearFiles n) ()
          (map (\<lambda>slot. if nameOf (fst slot) = n then (fst slot, []) else slot))),
      storage_addFile = (\<lambda>n file content.
        mutate OpAddFile (AddFile n file) ()
          (map (\<lambda>slot. if nameOf (fst slot) = n
                          then (fst slot, snd slot @ [(file, content)]) else slot))),
      storage_deleteLibrary = (\<lambda>n.
        mutate OpDeleteLibrary (DeleteLibrary n) ()
          (filter (\<lambda>slot. nameOf (fst slot) \<noteq> n)))\<rparr>"

text \<open>
  A library \<open>A\<close> in several versions. Its manifest declares one script and one style
  sheet.
\<close>

definition libraryA :: "int \<Rightarrow> int \<Rightarrow> int \<Rightarrow> library_metadata" where
  "libraryA major minor patch =
     \<lparr>machineName = ''A'', majorVersion = major, minorVersion = minor, patchVersion = patch,
      title = ''A'', runnable = True,
      preloadedJs = Some [''js/a.js''], preloadedCss = Some [''css/a.css'']\<rparr>"

definition emptyStore :: store where
  "emptyStore = \<lparr>slots = [], journal = [], faults = []\<rparr>"

definition installed :: "library_metadata \<Rightarrow> store" where
  "installed metadata =
     \<lparr>slots = [(metadata, [(''js/a.js'', ''old''), (''css/a.css'', ''old'')])],
      journal = [], faults = []\<rparr>"

text \<open>
  A file system with three source directories. \<open>/complete\<close> holds version 1.0.5 of
  \<open>A\<close> with both declared files and a README; \<open>/broken\<close> holds the same manifest
  but neither declared file; \<open>/empty\<close> holds no manifest. A stream is stood for by the
  path it was opened on.
\<close>

definition sourceFiles :: "string file_system" where
  "sourceFiles =
     \<lparr>readJSON = (\<lambda>path.
        if path = ''/complete/library.json'' \<or> path = ''/broken/library.json''
        then Resolved (libraryA 1 0 5)
        else Rejected (ExternalError ''ENOENT'')),
      entries = (\<lambda>directory.
        if directory = ''/complete''
        then [[''README''], [''css''], [''css'', ''a.css''], [''js''], [''js'', ''a.js''],
              [''library.json'']]
        else if directory = ''/broken''
        then [[''README''], [''library.json'']]
        else []),
      createReadStream = (\<lambda>path. path)\<rparr>"

text \<open>
  Two more stores: a slot that holds the metadata and no file yet, and a store in which
  one operation fails.
\<close>

definition slotOnly :: "library_metadata \<Rightarrow> store" where
  "slotOnly metadata = \<lparr>slots = [(metadata, [])], journal = [], faults = []\<rparr>"

definition failing :: "operation \<Rightarrow> store \<Rightarrow> store" where
  "failing op st = st\<lparr>faults := [op]\<rparr>"

section \<open>Notions used in the statements\<close>

text \<open>An installed library is of the line of \<open>library\<close>: same major and minor version.\<close>

definition sameLine :: "library_metadata \<Rightarrow> library_metadata \<Rightarrow> bool" where
  "sameLine library lib \<longleftrightarrow>
     majorVersion lib = majorVersion library \<and> minorVersion lib = minorVersion library"

text \<open>
  What the spec says of \<open>deleteSlot\<close>, as a property of a storage: whenever
  \<open>deleteLibrary\<close> completes, the library does not exist in the state it leaves.
\<close>

definition deletionRemoves :: "('s, 'c) ILibraryStorage \<Rightarrow> bool" where
  "deletionRemoves S \<longleftrightarrow>
     (\<forall>library t. await (fst (storage_deleteLibrary S library t)) = Inr ()
        \<longrightarrow> libraryExists S library (snd (storage_deleteLibrary S library t)) = Inr False)"

text \<open>
  The paths a manifest declares in one of its two lists, and those of a list of paths
  that the storage reports as not existing.
\<close>

definition declared :: "string list option \<Rightarrow> string list" where
  "declared paths = (case paths of None \<Rightarrow> [] | Some ps \<Rightarrow> ps)"

definition absent ::
  "('s, 'c) ILibraryStorage \<Rightarrow> library_name \<Rightarrow> 's \<Rightarrow> string list \<Rightarrow> string list" where
  "absent S library s files =
     filter (\<lambda>file. storage_fileExists S library file s = Resolved False) files"

text \<open>An error carries another one: it is that error, or holds it as its cause.\<close>

fun carries :: "error \<Rightarrow> error \<Rightarrow> bool" where
  "carries (ConsistencyCheckLibraryJsonUnreadable cause library) e =
     (ConsistencyCheckLibraryJsonUnreadable cause library = e \<or> carries cause e)"
| "carries e' e = (e' = e)"

section \<open>Auxiliary facts\<close>

lemmas async_defs = andThen_def tryCatch_def awaitCall_def awaitQuery_def return_def throw_def

lemmas memory_defs = memoryStorage_def findSlot_def mutate_def StoreFailure_def NotFound_def
  libraryA_def emptyStore_def installed_def sourceFiles_def nameOf_def fullNameOf_def

subsection \<open>The two paths of installFromDirectory\<close>

lemma firstOfLine_find:
  "firstOfLine libs library =
     (case find (sameLine library) libs of
        None \<Rightarrow> None
      | Some lib \<Rightarrow>
          if patchVersion lib < patchVersion library then Some (fullNameOf lib) else None)"
  by (induction libs) (simp_all add: sameLine_def)

lemma patch_path:
  assumes "await (readJSON fs (directory @ ''/library.json'')) = Inr library"
    and "libraryExists S (nameOf library) s = Inr True"
    and "listInstalledLibraries S [machineName library] s = Inr installedLibraries"
    and "installedLibraries (machineName library) = Some libs"
    and "find (sameLine library) libs = Some lib"
    and "patchVersion lib < patchVersion library"
  shows "installFromDirectory S fs directory restricted s =
     andThen (updateLibrary S fs library directory)
       (\<lambda>_. return (TypePatch (fullNameOf library) (fullNameOf lib))) s"
  using assms
  by (simp add: installFromDirectory_def async_defs isPatchedLibrary_def firstOfLine_find Let_def
        getProperty_def)

lemma fresh_path:
  assumes "await (readJSON fs (directory @ ''/library.json'')) = Inr library"
    and "libraryExists S (nameOf library) s = Inr False"
  shows "installFromDirectory S fs directory restricted s =
     andThen (installLibrary S fs directory library restricted)
       (\<lambda>_. return (TypeNew (fullNameOf library))) s"
  using assms
  by (simp add: installFromDirectory_def async_defs Let_def)

subsection \<open>The catch blocks\<close>

lemma installLibrary_catch_result:
  "installLibrary_catch S library e t
     = (case await (fst (storage_deleteLibrary S (nameOf library) t)) of
          Inl e' \<Rightarrow> Inl e'
        | Inr u \<Rightarrow> Inl e,
        snd (storage_deleteLibrary S (nameOf library) t))"
  by (simp add: installLibrary_catch_def async_defs split: sum.splits prod.splits)

lemma updateLibrary_catch_result:
  "updateLibrary_catch S library e t
     = (case await (fst (storage_deleteLibrary S (nameOf library) t)) of
          Inl e' \<Rightarrow> Inl e'
        | Inr u \<Rightarrow> Inl e,
        snd (storage_deleteLibrary S (nameOf library) t))"
  by (simp add: updateLibrary_catch_def async_defs split: sum.splits prod.splits)

lemma deletionRemoves_completed:
  assumes "deletionRemoves S"
    and "storage_deleteLibrary S library t = (deletion, t')"
    and "await deletion = Inr ()"
  shows "libraryExists S library t' = Inr False"
proof -
  have "await (fst (storage_deleteLibrary S library t)) = Inr ()"
    using assms(2,3) by simp
  then have "libraryExists S library (snd (storage_deleteLibrary S library t)) = Inr False"
    using assms(1) unfolding deletionRemoves_def by blast
  then show ?thesis using assms(2) by simp
qed

subsection \<open>checkFiles when the storage answers\<close>

lemma Promise_all_statuses:
  assumes "\<forall>file\<in>set files. \<exists>status. storage_fileExists S library file s = Resolved status"
  shows "Promise_all
           (map (\<lambda>file. case await (storage_fileExists S library file s) of
                          Inl e \<Rightarrow> Inl e
                        | Inr status \<Rightarrow> Inr (file, status)) files)
         = Inr (map (\<lambda>file. (file, storage_fileExists S library file s = Resolved True)) files)"
  using assms by (induction files) auto

lemma checkFiles_absent:
  assumes "\<forall>file\<in>set files. \<exists>status. storage_fileExists S library file s = Resolved status"
  shows "checkFiles S library files s =
     (if absent S library s files = [] then Inr True
      else Inl (ConsistencyCheckFileMissing (absent S library s files) library))"
proof -
  have "map fst (filter (\<lambda>file. \<not> snd file)
          (map (\<lambda>file. (file, storage_fileExists S library file s = Resolved True)) files))
        = absent S library s files"
    using assms unfolding absent_def by (induction files) auto
  then show ?thesis
    by (simp add: checkFiles_def Promise_all_statuses [OF assms] Let_def)
qed

subsection \<open>Sorting by version\<close>











subsection \<open>The arrays of a listing are not empty\<close>



subsection \<open>The advisory reads\<close>

lemma getLanguage_never_fails:
  "getLanguage S parse library language s = Inr None
   \<or> (\<exists>json. getLanguage S parse library language s = Inr (Some json))"
  by (simp add: getLanguage_def split: sum.splits)

lemma getLanguage_missing_file:
  "await (storage_getFileStream S library (''language/'' @ language @ ''.json'') s) = Inl e
   \<Longrightarrow> getLanguage S parse library language s = Inr None"
  by (simp add: getLanguage_def getJsonFile_def)

lemma getLibrary_Threw: "storage_getLibrary S library s = Threw e \<Longrightarrow> getLibrary S library s = Inr None"
  by (simp add: getLibrary_def)

lemma getLibrary_Rejected: "storage_getLibrary S library s = Rejected e \<Longrightarrow> getLibrary S library s = Inl e"
  by (simp add: getLibrary_def)

subsection \<open>What the glob pattern leaves out\<close>

lemma not_matchesPattern_without_dot:
  "CHR ''.'' \<notin> set segment \<Longrightarrow> \<not> matchesPattern (directories @ [segment])"
proof (induction directories)
  case Nil
  then show ?case by (cases segment) (simp_all add: matchesStarDotStar_def)
next
  case (Cons d ds)
  then show ?case by (cases "ds @ [segment]") simp_all
qed

subsection \<open>The example stores\<close>



lemma listing_of_faulty:
  "\<exists>w. listInstalledLibraries memoryStorage [''A'']
          ((installed (libraryA major minor patch))\<lparr>faults := ops\<rparr>) = Inr w
     \<and> w ''A'' = Some [(libraryA major minor patch)\<lparr>preloadedJs := None, preloadedCss := None\<rparr>]"
  by (simp add: listInstalledLibraries_def memory_defs hydrate_def getLibrary_def
        array_sort_def pushLibrary_def getProperty_def inheritedProperty_def)

lemma exists_faulty:
  "libraryExists memoryStorage (nameOf (libraryA 1 0 5))
     ((installed (libraryA 1 0 patch))\<lparr>faults := ops\<rparr>) = Inr True"
  by (simp add: libraryExists_def memory_defs)

lemma deletionRemoves_memoryStorage: "deletionRemoves memoryStorage"
  by (simp add: deletionRemoves_def libraryExists_def memoryStorage_def findSlot_def
        mutate_def find_None_iff)

lemma manifest_complete:
  "await (readJSON sourceFiles (''/complete'' @ ''/library.json'')) = Inr (libraryA 1 0 5)"
  by (simp add: sourceFiles_def)

lemma manifest_broken:
  "await (readJSON sourceFiles (''/broken'' @ ''/library.json'')) = Inr (libraryA 1 0 5)"
  by (simp add: sourceFiles_def)

lemma machineName_libraryA: "machineName (libraryA major minor patch) = ''A''"
  by (simp add: libraryA_def)


section \<open>A fresh install\<close>

text \<open>
  C1, as the code has it. A fresh install: the manifest is read, the storage says that
  the library does not exist, and \<open>addLibrary\<close> adds it, leaving state \<open>s1\<close>; copying
  the files leaves state \<open>s2\<close>. When the copy and the consistency check succeed,
  \<open>installFromDirectory\<close> returns the result of type \<open>new\<close> with the version of the
  manifest. When the copy or the check fails with \<open>e\<close>, \<open>deleteLibrary\<close> is called on
  the library in \<open>s2\<close> and leaves the final state \<open>s3\<close>. When that call completes,
  \<open>installFromDirectory\<close> fails with \<open>e\<close>, and in a storage whose completed deletions
  remove the library, the library does not exist in \<open>s3\<close>. When that call fails with
  \<open>e'\<close>, \<open>installFromDirectory\<close> fails with \<open>e'\<close>.
\<close>

theorem installFromDirectory_fresh:
  assumes "await (readJSON fs (directory @ ''/library.json'')) = Inr library"
    and "libraryExists S (nameOf library) s = Inr False"
    and added: "storage_addLibrary S library restricted s = (Resolved newLibraryInfo, s1)"
    and copied: "copyLibraryFiles S fs directory (nameOf newLibraryInfo) s1 = (copy, s2)"
  shows "(copy = Inr () \<and> checkConsistency S (nameOf library) s2 = Inr True
          \<longrightarrow> installFromDirectory S fs directory restricted s
                = (Inr (TypeNew (fullNameOf library)), s2))
       \<and> ((copy = Inl e \<or> copy = Inr () \<and> checkConsistency S (nameOf library) s2 = Inl e)
            \<and> storage_deleteLibrary S (nameOf library) s2 = (deletion, s3)
          \<longrightarrow> (await deletion = Inr ()
                \<longrightarrow> installFromDirectory S fs directory restricted s = (Inl e, s3)
                    \<and> (deletionRemoves S \<longrightarrow> libraryExists S (nameOf library) s3 = Inr False))
              \<and> (await deletion = Inl e'
                \<longrightarrow> installFromDirectory S fs directory restricted s = (Inl e', s3)))"
proof -
  note path = fresh_path [OF assms(1-2)]
  have ok: "copy = Inr () \<and> checkConsistency S (nameOf library) s2 = Inr True
          \<longrightarrow> installFromDirectory S fs directory restricted s
                = (Inr (TypeNew (fullNameOf library)), s2)"
    using added copied
    by (simp add: path installLibrary_def installLibrary_try_def async_defs)
  have failing: "installFromDirectory S fs directory restricted s
          = (case await deletion of Inl e' \<Rightarrow> Inl e' | Inr u \<Rightarrow> Inl e, s3)"
    if "copy = Inl e \<or> copy = Inr () \<and> checkConsistency S (nameOf library) s2 = Inl e"
      and "storage_deleteLibrary S (nameOf library) s2 = (deletion, s3)"
    using that added copied
    by (auto simp add: path installLibrary_def installLibrary_try_def
        installLibrary_catch_result andThen_def tryCatch_def awaitCall_def
        awaitQuery_def return_def split: sum.splits)
  show ?thesis
    using ok failing deletionRemoves_completed [of S "nameOf library" s2 deletion s3]
    by auto
qed

text \<open>
  Installing \<open>/complete\<close> into the empty store gives the new library with its two
  files. Installing \<open>/broken\<close> fails the check with the missing script, installing
  \<open>/complete\<close> with a failing \<open>addFile\<close> fails the copy: the slot is deleted and the
  library does not exist afterwards. With a failing \<open>deleteLibrary\<close> the storage
  failure is what the caller receives.
\<close>

theorem installFromDirectory_fresh_witness:
  "installFromDirectory memoryStorage sourceFiles ''/complete'' False emptyStore
     = (Inr (TypeNew (fullNameOf (libraryA 1 0 5))),
        \<lparr>slots = [(libraryA 1 0 5,
                    [(''css/a.css'', ''/complete/css/a.css''), (''js/a.js'', ''/complete/js/a.js'')])],
         journal = [AddLibrary (libraryA 1 0 5) False,
                    AddFile (nameOf (libraryA 1 0 5)) ''css/a.css'',
                    AddFile (nameOf (libraryA 1 0 5)) ''js/a.js''],
         faults = []\<rparr>)
   \<and> installFromDirectory memoryStorage sourceFiles ''/broken'' False emptyStore
     = (Inl (ConsistencyCheckFileMissing [''js/a.js''] (nameOf (libraryA 1 0 5))),
        \<lparr>slots = [],
         journal = [AddLibrary (libraryA 1 0 5) False, DeleteLibrary (nameOf (libraryA 1 0 5))],
         faults = []\<rparr>)
   \<and> libraryExists memoryStorage (nameOf (libraryA 1 0 5))
        \<lparr>slots = [],
         journal = [AddLibrary (libraryA 1 0 5) False, DeleteLibrary (nameOf (libraryA 1 0 5))],
         faults = []\<rparr>
     = Inr False
   \<and> installFromDirectory memoryStorage sourceFiles ''/complete'' False
        (failing OpAddFile emptyStore)
     = (Inl StoreFailure,
        \<lparr>slots = [],
         journal = [AddLibrary (libraryA 1 0 5) False,
                    AddFile (nameOf (libraryA 1 0 5)) ''css/a.css'',
                    AddFile (nameOf (libraryA 1 0 5)) ''js/a.js'',
                    DeleteLibrary (nameOf (libraryA 1 0 5))],
         faults = [OpAddFile]\<rparr>)
   \<and> installFromDirectory memoryStorage sourceFiles ''/broken'' False
        (failing OpDeleteLibrary emptyStore)
     = (Inl StoreFailure,
        \<lparr>slots = [(libraryA 1 0 5, [])],
         journal = [AddLibrary (libraryA 1 0 5) False, DeleteLibrary (nameOf (libraryA 1 0 5))],
         faults = [OpDeleteLibrary]\<rparr>)"
proof -
  let ?S = memoryStorage and ?A = "libraryA 1 0 5"
  let ?missing = "ConsistencyCheckFileMissing [''js/a.js''] (nameOf ?A)"
  have fresh: "libraryExists ?S (nameOf ?A) (failing op emptyStore) = Inr False"
    "libraryExists ?S (nameOf ?A) emptyStore = Inr False" for op
    by (simp_all add: libraryExists_def memory_defs failing_def)
  \<comment> \<open>the empty store\<close>
  let ?s1 = "snd (storage_addLibrary ?S ?A False emptyStore)"
  have added: "storage_addLibrary ?S ?A False emptyStore = (Resolved ?A, ?s1)"
    by (simp add: memory_defs)
  let ?c = "copyLibraryFiles ?S sourceFiles ''/complete'' (nameOf ?A) ?s1"
  let ?b = "copyLibraryFiles ?S sourceFiles ''/broken'' (nameOf ?A) ?s1"
  let ?bd = "\<lparr>slots = [],
         journal = [AddLibrary (libraryA 1 0 5) False, DeleteLibrary (nameOf (libraryA 1 0 5))],
         faults = []\<rparr>"
  have copied: "?c = (fst ?c, snd ?c)" and copied': "?b = (fst ?b, snd ?b)"
    by simp_all
  have c1: "fst ?c = Inr ()" by code_simp
  have c2: "checkConsistency ?S (nameOf ?A) (snd ?c) = Inr True" by code_simp
  have c3: "snd ?c = \<lparr>slots = [(libraryA 1 0 5,
                    [(''css/a.css'', ''/complete/css/a.css''), (''js/a.js'', ''/complete/js/a.js'')])],
         journal = [AddLibrary (libraryA 1 0 5) False,
                    AddFile (nameOf (libraryA 1 0 5)) ''css/a.css'',
                    AddFile (nameOf (libraryA 1 0 5)) ''js/a.js''],
         faults = []\<rparr>" by code_simp
  have b1: "fst ?b = Inr ()" by code_simp
  have b2: "checkConsistency ?S (nameOf ?A) (snd ?b) = Inl ?missing" by code_simp
  have b3: "storage_deleteLibrary ?S (nameOf ?A) (snd ?b) = (Resolved (), ?bd)" by code_simp
  note complete = installFromDirectory_fresh [OF manifest_complete fresh(2) added copied]
  note broken = installFromDirectory_fresh [OF manifest_broken fresh(2) added copied',
      where e = ?missing and deletion = "Resolved ()" and ?s3.0 = ?bd]
  \<comment> \<open>a failing \<open>addFile\<close>\<close>
  let ?t = "failing OpAddFile emptyStore"
  let ?t1 = "snd (storage_addLibrary ?S ?A False ?t)"
  have added_t: "storage_addLibrary ?S ?A False ?t = (Resolved ?A, ?t1)"
    by (simp add: memory_defs failing_def)
  let ?tc = "copyLibraryFiles ?S sourceFiles ''/complete'' (nameOf ?A) ?t1"
  let ?td = "\<lparr>slots = [],
         journal = [AddLibrary (libraryA 1 0 5) False,
                    AddFile (nameOf (libraryA 1 0 5)) ''css/a.css'',
                    AddFile (nameOf (libraryA 1 0 5)) ''js/a.js'',
                    DeleteLibrary (nameOf (libraryA 1 0 5))],
         faults = [OpAddFile]\<rparr>"
  have copied_t: "?tc = (fst ?tc, snd ?tc)" by simp
  have t1: "fst ?tc = Inl StoreFailure" by code_simp
  have t2: "storage_deleteLibrary ?S (nameOf ?A) (snd ?tc) = (Resolved (), ?td)" by code_simp
  note copying = installFromDirectory_fresh [OF manifest_complete fresh(1) added_t copied_t,
      where e = StoreFailure and deletion = "Resolved ()" and ?s3.0 = ?td]
  \<comment> \<open>a failing \<open>deleteLibrary\<close>\<close>
  let ?u = "failing OpDeleteLibrary emptyStore"
  let ?u1 = "snd (storage_addLibrary ?S ?A False ?u)"
  have added_u: "storage_addLibrary ?S ?A False ?u = (Resolved ?A, ?u1)"
    by (simp add: memory_defs failing_def)
  let ?ub = "copyLibraryFiles ?S sourceFiles ''/broken'' (nameOf ?A) ?u1"
  let ?ud = "\<lparr>slots = [(libraryA 1 0 5, [])],
         journal = [AddLibrary (libraryA 1 0 5) False, DeleteLibrary (nameOf (libraryA 1 0 5))],
         faults = [OpDeleteLibrary]\<rparr>"
  have copied_u: "?ub = (fst ?ub, snd ?ub)" by simp
  have u1: "fst ?ub = Inr ()" by code_simp
  have u2: "checkConsistency ?S (nameOf ?A) (snd ?ub) = Inl ?missing" by code_simp
  have u3: "storage_deleteLibrary ?S (nameOf ?A) (snd ?ub) = (Rejected StoreFailure, ?ud)"
    by code_simp
  note cleanup = installFromDirectory_fresh [OF manifest_broken fresh(1) added_u copied_u,
      where e = ?missing and deletion = "Rejected StoreFailure" and ?s3.0 = ?ud
        and e' = StoreFailure]
  have "installFromDirectory ?S sourceFiles ''/complete'' False emptyStore
          = (Inr (TypeNew (fullNameOf ?A)), snd ?c)"
    using complete c1 c2 by simp
  moreover have "installFromDirectory ?S sourceFiles ''/broken'' False emptyStore
          = (Inl ?missing, ?bd) \<and> libraryExists ?S (nameOf ?A) ?bd = Inr False"
    using broken b1 b2 b3 deletionRemoves_memoryStorage by simp
  moreover have "installFromDirectory ?S sourceFiles ''/complete'' False ?t
          = (Inl StoreFailure, ?td)"
    using copying t1 t2 by simp
  moreover have "installFromDirectory ?S sourceFiles ''/broken'' False ?u
          = (Inl StoreFailure, ?ud)"
    using cleanup u1 u2 u3 by simp
  ultimately show ?thesis
    by (simp only: c3 simp_thms)
qed

text \<open>
  The claim says that the slot is deleted and the failure thrown again whenever the copy
  or the check fails. With a storage whose \<open>deleteLibrary\<close> fails, the library did not
  exist before, the check fails with the missing script, and afterwards the caller has
  the storage failure and the library exists, without its files.
\<close>

theorem installFromDirectory_fresh_counterexample:
  "libraryExists memoryStorage (nameOf (libraryA 1 0 5)) (failing OpDeleteLibrary emptyStore)
     = Inr False
   \<and> fst (installLibrary_try memoryStorage sourceFiles ''/broken'' (libraryA 1 0 5)
            (libraryA 1 0 5)
            (snd (storage_addLibrary memoryStorage (libraryA 1 0 5) False
                    (failing OpDeleteLibrary emptyStore))))
     = Inl (ConsistencyCheckFileMissing [''js/a.js''] (nameOf (libraryA 1 0 5)))
   \<and> installFromDirectory memoryStorage sourceFiles ''/broken'' False
        (failing OpDeleteLibrary emptyStore)
     = (Inl StoreFailure,
        \<lparr>slots = [(libraryA 1 0 5, [])],
         journal = [AddLibrary (libraryA 1 0 5) False, DeleteLibrary (nameOf (libraryA 1 0 5))],
         faults = [OpDeleteLibrary]\<rparr>)
   \<and> libraryExists memoryStorage (nameOf (libraryA 1 0 5))
        (snd (installFromDirectory memoryStorage sourceFiles ''/broken'' False
                (failing OpDeleteLibrary emptyStore)))
     = Inr True"
  by code_simp

section \<open>A patch update\<close>




section \<open>A patch that is not newer\<close>



section \<open>The upgrade query\<close>




section \<open>What the consistency check reports\<close>

text \<open>
  C5, as the code has it. When the library exists, its stored metadata can be read and
  the storage answers for every declared path, the check fails exactly when a declared
  path is absent. It then fails with the error of id
  \<open>library-consistency-check-file-missing\<close>, which carries every absent path of
  \<open>preloadedJs\<close> when there is one, and otherwise every absent path of
  \<open>preloadedCss\<close>. The style sheets are not looked at while a script is missing.
\<close>

theorem checkConsistency_missing:
  assumes "libraryExists S library s = Inr True"
    and "storage_getLibrary S library s = Resolved metadata"
    and "\<forall>file \<in> set (declared (preloadedJs metadata)) \<union> set (declared (preloadedCss metadata)).
           \<exists>status. storage_fileExists S library file s = Resolved status"
  shows "checkConsistency S library s =
     (if absent S library s (declared (preloadedJs metadata)) \<noteq> []
      then Inl (ConsistencyCheckFileMissing
                  (absent S library s (declared (preloadedJs metadata))) library)
      else if absent S library s (declared (preloadedCss metadata)) \<noteq> []
      then Inl (ConsistencyCheckFileMissing
                  (absent S library s (declared (preloadedCss metadata))) library)
      else Inr True)"
proof -
  have js: "\<forall>file\<in>set (declared (preloadedJs metadata)).
              \<exists>status. storage_fileExists S library file s = Resolved status"
    and css: "\<forall>file\<in>set (declared (preloadedCss metadata)).
              \<exists>status. storage_fileExists S library file s = Resolved status"
    using assms(3) by auto
  have a: "(case preloadedJs metadata of None \<Rightarrow> Inr True | Some js \<Rightarrow> checkFiles S library js s)
         = (if absent S library s (declared (preloadedJs metadata)) = [] then Inr True
            else Inl (ConsistencyCheckFileMissing
                  (absent S library s (declared (preloadedJs metadata))) library))"
    using checkFiles_absent [OF js]
    by (cases "preloadedJs metadata") (simp_all add: declared_def absent_def)
  have b: "(case preloadedCss metadata of None \<Rightarrow> Inr True | Some js \<Rightarrow> checkFiles S library js s)
         = (if absent S library s (declared (preloadedCss metadata)) = [] then Inr True
            else Inl (ConsistencyCheckFileMissing
                  (absent S library s (declared (preloadedCss metadata))) library))"
    using checkFiles_absent [OF css]
    by (cases "preloadedCss metadata") (simp_all add: declared_def absent_def)
  show ?thesis
    using assms(1,2) by (simp add: checkConsistency_def a b)
qed

text \<open>
  A slot of \<open>A\<close> 1.0.5 without files reports the script; once the script is there, it
  reports the style sheet.
\<close>

theorem checkConsistency_missing_witness:
  "checkConsistency memoryStorage (nameOf (libraryA 1 0 5)) (slotOnly (libraryA 1 0 5))
     = Inl (ConsistencyCheckFileMissing [''js/a.js''] (nameOf (libraryA 1 0 5)))
   \<and> checkConsistency memoryStorage (nameOf (libraryA 1 0 5))
        (snd (storage_addFile memoryStorage (nameOf (libraryA 1 0 5)) ''js/a.js'' ''a''
                (slotOnly (libraryA 1 0 5))))
     = Inl (ConsistencyCheckFileMissing [''css/a.css''] (nameOf (libraryA 1 0 5)))"
proof -
  let ?S = memoryStorage and ?n = "nameOf (libraryA 1 0 5)" and ?s = "slotOnly (libraryA 1 0 5)"
  let ?t = "snd (storage_addFile ?S ?n ''js/a.js'' ''a'' ?s)"
  have exists: "libraryExists ?S ?n ?s = Inr True" "libraryExists ?S ?n ?t = Inr True"
    by (simp_all add: libraryExists_def memory_defs slotOnly_def)
  have metadata: "storage_getLibrary ?S ?n ?s = Resolved (libraryA 1 0 5)"
    "storage_getLibrary ?S ?n ?t = Resolved (libraryA 1 0 5)"
    by (simp_all add: memory_defs slotOnly_def)
  have statuses: "\<forall>file \<in> set (declared (preloadedJs (libraryA 1 0 5)))
                         \<union> set (declared (preloadedCss (libraryA 1 0 5))).
                    \<exists>status. storage_fileExists ?S ?n file st = Resolved status" for st
    by (simp add: memoryStorage_def)
  have js: "absent ?S ?n ?s (declared (preloadedJs (libraryA 1 0 5))) = [''js/a.js'']"
    "absent ?S ?n ?t (declared (preloadedJs (libraryA 1 0 5))) = []"
    "absent ?S ?n ?t (declared (preloadedCss (libraryA 1 0 5))) = [''css/a.css'']"
    by code_simp+
  show ?thesis
    using checkConsistency_missing [OF exists(1) metadata(1) statuses]
      checkConsistency_missing [OF exists(2) metadata(2) statuses] js
    by simp
qed

text \<open>
  In the slot without files both declared paths are absent, and the error carries the
  script alone.
\<close>

theorem checkConsistency_missing_counterexample:
  "checkConsistency memoryStorage (nameOf (libraryA 1 0 5)) (slotOnly (libraryA 1 0 5))
     = Inl (ConsistencyCheckFileMissing [''js/a.js''] (nameOf (libraryA 1 0 5)))
   \<and> absent memoryStorage (nameOf (libraryA 1 0 5)) (slotOnly (libraryA 1 0 5))
        (declared (preloadedJs (libraryA 1 0 5)) @ declared (preloadedCss (libraryA 1 0 5)))
     = [''js/a.js'', ''css/a.css'']"
  by code_simp

section \<open>A failing cleanup\<close>

text \<open>
  C6, as the code has it. When the \<open>try\<close> block of \<open>installLibrary\<close> or of
  \<open>updateLibrary\<close> fails with \<open>e\<close> and the \<open>deleteLibrary\<close> call of the \<open>catch\<close>
  block fails with \<open>e'\<close>, the operation fails with \<open>e'\<close>, the failure of the cleanup;
  the failure \<open>e\<close> that started the cleanup is not part of what the caller receives.
\<close>

theorem cleanup_failure_alone:
  "(storage_addLibrary S library restricted s = (Resolved newLibraryInfo, s1)
      \<and> installLibrary_try S fs directory library newLibraryInfo s1 = (Inl e, s2)
      \<and> storage_deleteLibrary S (nameOf library) s2 = (deletion, s3)
      \<and> await deletion = Inl e'
    \<longrightarrow> installLibrary S fs directory library restricted s = (Inl e', s3))
   \<and> (updateLibrary_try S fs library directory t = (Inl e, t2)
      \<and> storage_deleteLibrary S (nameOf library) t2 = (deletion', t3)
      \<and> await deletion' = Inl e'
    \<longrightarrow> updateLibrary S fs library directory t = (Inl e', t3))"
  by (simp add: installLibrary_def updateLibrary_def installLibrary_catch_def
      updateLibrary_catch_def async_defs)

text \<open>
  \<open>/broken\<close> installed into a store whose \<open>deleteLibrary\<close> fails, fresh and as an
  update: the caller receives the storage failure, and the slot stays.
\<close>

theorem cleanup_failure_alone_witness:
  "installLibrary memoryStorage sourceFiles ''/broken'' (libraryA 1 0 5) False
        (failing OpDeleteLibrary emptyStore)
     = (Inl StoreFailure,
        \<lparr>slots = [(libraryA 1 0 5, [])],
         journal = [AddLibrary (libraryA 1 0 5) False, DeleteLibrary (nameOf (libraryA 1 0 5))],
         faults = [OpDeleteLibrary]\<rparr>)
   \<and> updateLibrary memoryStorage sourceFiles (libraryA 1 0 5) ''/broken''
        (failing OpDeleteLibrary (installed (libraryA 1 0 0)))
     = (Inl StoreFailure,
        \<lparr>slots = [(libraryA 1 0 5, [])],
         journal = [UpdateLibrary (libraryA 1 0 5), ClearFiles (nameOf (libraryA 1 0 5)),
                    DeleteLibrary (nameOf (libraryA 1 0 5))],
         faults = [OpDeleteLibrary]\<rparr>)"
proof -
  let ?S = memoryStorage and ?A = "libraryA 1 0 5"
  let ?missing = "ConsistencyCheckFileMissing [''js/a.js''] (nameOf ?A)"
  let ?s = "failing OpDeleteLibrary emptyStore"
  let ?s1 = "snd (storage_addLibrary ?S ?A False ?s)"
  let ?s2 = "snd (installLibrary_try ?S sourceFiles ''/broken'' ?A ?A ?s1)"
  let ?s3 = "\<lparr>slots = [(libraryA 1 0 5, [])],
         journal = [AddLibrary (libraryA 1 0 5) False, DeleteLibrary (nameOf (libraryA 1 0 5))],
         faults = [OpDeleteLibrary]\<rparr>"
  have i1: "storage_addLibrary ?S ?A False ?s = (Resolved ?A, ?s1)" by code_simp
  have i2: "installLibrary_try ?S sourceFiles ''/broken'' ?A ?A ?s1 = (Inl ?missing, ?s2)"
    by code_simp
  have i3: "storage_deleteLibrary ?S (nameOf ?A) ?s2 = (Rejected StoreFailure, ?s3)" by code_simp
  have i4: "await (Rejected StoreFailure :: unit outcome) = Inl StoreFailure" by simp
  let ?t = "failing OpDeleteLibrary (installed (libraryA 1 0 0))"
  let ?t2 = "snd (updateLibrary_try ?S sourceFiles ?A ''/broken'' ?t)"
  let ?t3 = "\<lparr>slots = [(libraryA 1 0 5, [])],
         journal = [UpdateLibrary (libraryA 1 0 5), ClearFiles (nameOf (libraryA 1 0 5)),
                    DeleteLibrary (nameOf (libraryA 1 0 5))],
         faults = [OpDeleteLibrary]\<rparr>"
  have u1: "updateLibrary_try ?S sourceFiles ?A ''/broken'' ?t = (Inl ?missing, ?t2)" by code_simp
  have u2: "storage_deleteLibrary ?S (nameOf ?A) ?t2 = (Rejected StoreFailure, ?t3)" by code_simp
  note both = cleanup_failure_alone [of ?S ?A False ?s ?A ?s1 sourceFiles "''/broken''" ?missing ?s2
      "Rejected StoreFailure" ?s3 StoreFailure ?t ?t2 "Rejected StoreFailure" ?t3]
  show ?thesis
    using both i1 i2 i3 i4 u1 u2 by simp
qed

text \<open>
  In that fresh install the \<open>try\<close> block fails with the missing script, and
  \<open>installFromDirectory\<close> fails with the storage failure, which does not carry it.
\<close>

theorem cleanup_failure_counterexample:
  "fst (installLibrary_try memoryStorage sourceFiles ''/broken'' (libraryA 1 0 5) (libraryA 1 0 5)
          (snd (storage_addLibrary memoryStorage (libraryA 1 0 5) False
                  (failing OpDeleteLibrary emptyStore))))
     = Inl (ConsistencyCheckFileMissing [''js/a.js''] (nameOf (libraryA 1 0 5)))
   \<and> fst (installFromDirectory memoryStorage sourceFiles ''/broken'' False
            (failing OpDeleteLibrary emptyStore))
     = Inl StoreFailure
   \<and> \<not> carries StoreFailure (ConsistencyCheckFileMissing [''js/a.js''] (nameOf (libraryA 1 0 5)))"
  by code_simp

section \<open>The advisory read of the metadata\<close>

text \<open>
  C7, on the code. The library \<open>A\<close> is not installed in the empty store, the storage
  rejects the promise of \<open>getLibrary\<close>, and \<open>getLibrary\<close> of the manager fails with
  that rejection instead of returning \<open>undefined\<close>: the promise is returned from the
  \<open>try\<close> block without \<open>await\<close>, so the \<open>catch\<close> block does not see its rejection.
  \<open>getLanguage\<close>, which awaits, returns \<open>null\<close> for the same library.
\<close>

theorem getLibrary_rejection_propagates:
  "storage_getLibrary memoryStorage (nameOf (libraryA 1 0 5)) emptyStore = Rejected NotFound
   \<and> getLibrary memoryStorage (nameOf (libraryA 1 0 5)) emptyStore = Inl NotFound
   \<and> getLanguage memoryStorage Inr (nameOf (libraryA 1 0 5)) ''de'' emptyStore = Inr None"
  by code_simp

section \<open>An unreadable manifest\<close>

text \<open>
  C8. When reading \<open>library.json\<close> at the root of the source directory fails, because
  the file is missing or cannot be parsed, \<open>installFromDirectory\<close> fails with that
  failure, which the error taxonomy classifies as ManifestUnreadable, and the storage is
  in the state it was in: no storage operation has run.
\<close>

theorem installFromDirectory_manifest_unreadable:
  assumes "await (readJSON fs (directory @ ''/library.json'')) = Inl e"
  shows "installFromDirectory S fs directory restricted s = (Inl e, s)"
  using assms by (simp add: installFromDirectory_def async_defs)

text \<open>The directory \<open>/empty\<close> has no manifest.\<close>

theorem installFromDirectory_manifest_unreadable_witness:
  "installFromDirectory memoryStorage sourceFiles ''/empty'' False (installed (libraryA 1 0 0))
     = (Inl (ExternalError ''ENOENT''), installed (libraryA 1 0 0))"
proof -
  have "await (readJSON sourceFiles (''/empty'' @ ''/library.json'')) = Inl (ExternalError ''ENOENT'')"
    by (simp add: sourceFiles_def)
  then show ?thesis by (rule installFromDirectory_manifest_unreadable)
qed

section \<open>The files that are copied\<close>

text \<open>
  C9, on the code. The directory \<open>/complete\<close> holds a file \<open>README\<close>. Its name has no
  dot, the pattern \<open>**/*.*\<close> does not match it, and \<open>copyLibraryFiles\<close> completes
  without adding it: the storage receives the style sheet and the script only.
\<close>

theorem copyLibraryFiles_skips_README:
  "[''README''] \<in> set (entries sourceFiles ''/complete'')
   \<and> copyLibraryFiles memoryStorage sourceFiles ''/complete'' (nameOf (libraryA 1 0 5))
        (slotOnly (libraryA 1 0 5))
     = (Inr (),
        \<lparr>slots = [(libraryA 1 0 5,
                    [(''css/a.css'', ''/complete/css/a.css''), (''js/a.js'', ''/complete/js/a.js'')])],
         journal = [AddFile (nameOf (libraryA 1 0 5)) ''css/a.css'',
                    AddFile (nameOf (libraryA 1 0 5)) ''js/a.js''],
         faults = []\<rparr>)"
  by code_simp

section \<open>A failing metadata update\<close>

text \<open>
  C10, as the code has it. In a patch update, when \<open>updateLibrary\<close> of the storage
  fails with \<open>e\<close> and leaves state \<open>s1\<close>, \<open>deleteLibrary\<close> is called on the library
  in \<open>s1\<close>, without \<open>clearFiles\<close> having run, and leaves the final state \<open>s2\<close>. When
  that call completes, \<open>installFromDirectory\<close> fails with \<open>e\<close>, and in a storage whose
  completed deletions remove the library, the library that was installed does not exist
  in \<open>s2\<close>. When that call fails with \<open>e'\<close>, \<open>installFromDirectory\<close> fails with \<open>e'\<close>.
\<close>

theorem installFromDirectory_update_failure:
  assumes "await (readJSON fs (directory @ ''/library.json'')) = Inr library"
    and "libraryExists S (nameOf library) s = Inr True"
    and "listInstalledLibraries S [machineName library] s = Inr installedLibraries"
    and "installedLibraries (machineName library) = Some libs"
    and "find (sameLine library) libs = Some lib"
    and "patchVersion lib < patchVersion library"
    and updated: "storage_updateLibrary S library s = (update, s1)"
    and failed: "await update = Inl e"
    and deleted: "storage_deleteLibrary S (nameOf library) s1 = (deletion, s2)"
  shows "(await deletion = Inr ()
          \<longrightarrow> installFromDirectory S fs directory restricted s = (Inl e, s2)
              \<and> (deletionRemoves S \<longrightarrow> libraryExists S (nameOf library) s2 = Inr False))
       \<and> (await deletion = Inl e'
          \<longrightarrow> installFromDirectory S fs directory restricted s = (Inl e', s2))"
proof -
  have "installFromDirectory S fs directory restricted s
          = (case await deletion of Inl e' \<Rightarrow> Inl e' | Inr u \<Rightarrow> Inl e, s2)"
    using updated failed
    by (auto simp add: patch_path [OF assms(1-6)] updateLibrary_def updateLibrary_try_def
        updateLibrary_catch_result deleted andThen_def tryCatch_def awaitCall_def
        awaitQuery_def return_def split: sum.splits)
  then show ?thesis
    using deletionRemoves_completed [OF _ deleted] by auto
qed

text \<open>
  With version 1.0.0 installed and a failing \<open>updateLibrary\<close>: the storage failure is
  thrown, the journal holds the update and the deletion, and the library that was
  installed is gone. When \<open>deleteLibrary\<close> fails as well, its failure is thrown.
\<close>

theorem installFromDirectory_update_failure_witness:
  "installFromDirectory memoryStorage sourceFiles ''/complete'' False
        (failing OpUpdateLibrary (installed (libraryA 1 0 0)))
     = (Inl StoreFailure,
        \<lparr>slots = [],
         journal = [UpdateLibrary (libraryA 1 0 5), DeleteLibrary (nameOf (libraryA 1 0 5))],
         faults = [OpUpdateLibrary]\<rparr>)
   \<and> libraryExists memoryStorage (nameOf (libraryA 1 0 5))
        \<lparr>slots = [],
         journal = [UpdateLibrary (libraryA 1 0 5), DeleteLibrary (nameOf (libraryA 1 0 5))],
         faults = [OpUpdateLibrary]\<rparr>
     = Inr False
   \<and> installFromDirectory memoryStorage sourceFiles ''/complete'' False
        ((installed (libraryA 1 0 0))\<lparr>faults := [OpUpdateLibrary, OpDeleteLibrary]\<rparr>)
     = (Inl StoreFailure,
        \<lparr>slots = [(libraryA 1 0 0, [(''js/a.js'', ''old''), (''css/a.css'', ''old'')])],
         journal = [UpdateLibrary (libraryA 1 0 5), DeleteLibrary (nameOf (libraryA 1 0 5))],
         faults = [OpUpdateLibrary, OpDeleteLibrary]\<rparr>)"
proof -
  let ?S = memoryStorage and ?A = "libraryA 1 0 5"
  let ?old = "(libraryA 1 0 0)\<lparr>preloadedJs := None, preloadedCss := None\<rparr>"
  have line: "find (sameLine ?A) [?old] = Some ?old"
    by (simp add: sameLine_def libraryA_def)
  have patch: "patchVersion ?old < patchVersion ?A"
    by (simp add: libraryA_def)
  have listed: "\<exists>w. listInstalledLibraries ?S [machineName ?A]
                       ((installed (libraryA 1 0 0))\<lparr>faults := ops\<rparr>) = Inr w
                  \<and> w (machineName ?A) = Some [?old]" for ops
    using listing_of_faulty [where major = 1 and minor = 0 and patch = 0 and ops = ops]
    by (simp add: machineName_libraryA)
  \<comment> \<open>a failing \<open>updateLibrary\<close>\<close>
  let ?s = "(installed (libraryA 1 0 0))\<lparr>faults := [OpUpdateLibrary]\<rparr>"
  have s: "failing OpUpdateLibrary (installed (libraryA 1 0 0)) = ?s"
    by (simp add: failing_def)
  obtain w where w: "listInstalledLibraries ?S [machineName ?A] ?s = Inr w"
    and wA: "w (machineName ?A) = Some [?old]"
    using listed by blast
  let ?u = "storage_updateLibrary ?S ?A ?s"
  let ?d = "\<lparr>slots = [],
         journal = [UpdateLibrary (libraryA 1 0 5), DeleteLibrary (nameOf (libraryA 1 0 5))],
         faults = [OpUpdateLibrary]\<rparr>"
  have updated: "?u = (fst ?u, snd ?u)" by simp
  have failed: "await (fst ?u) = Inl StoreFailure" by code_simp
  have deleted: "storage_deleteLibrary ?S (nameOf ?A) (snd ?u) = (Resolved (), ?d)"
    by code_simp
  note completed = installFromDirectory_update_failure [OF manifest_complete exists_faulty
      w wA line patch updated failed deleted, where restricted = False]
  \<comment> \<open>a failing \<open>deleteLibrary\<close> as well\<close>
  let ?t = "(installed (libraryA 1 0 0))\<lparr>faults := [OpUpdateLibrary, OpDeleteLibrary]\<rparr>"
  obtain wt where wt: "listInstalledLibraries ?S [machineName ?A] ?t = Inr wt"
    and wtA: "wt (machineName ?A) = Some [?old]"
    using listed by blast
  let ?tu = "storage_updateLibrary ?S ?A ?t"
  let ?td = "\<lparr>slots = [(libraryA 1 0 0, [(''js/a.js'', ''old''), (''css/a.css'', ''old'')])],
         journal = [UpdateLibrary (libraryA 1 0 5), DeleteLibrary (nameOf (libraryA 1 0 5))],
         faults = [OpUpdateLibrary, OpDeleteLibrary]\<rparr>"
  have updated_t: "?tu = (fst ?tu, snd ?tu)" by simp
  have failed_t: "await (fst ?tu) = Inl StoreFailure" by code_simp
  have deleted_t: "storage_deleteLibrary ?S (nameOf ?A) (snd ?tu) = (Rejected StoreFailure, ?td)"
    by code_simp
  note cleanup = installFromDirectory_update_failure [OF manifest_complete exists_faulty
      wt wtA line patch updated_t failed_t deleted_t,
      where restricted = False and e' = StoreFailure]
  show ?thesis
    using completed cleanup deletionRemoves_memoryStorage by (simp add: s)
qed

text \<open>
  The claim says that a failed metadata update leaves the library uninstalled. In a
  storage whose \<open>updateLibrary\<close> and \<open>deleteLibrary\<close> both fail, the library that was
  installed exists afterwards, with its old metadata and its old files.
\<close>

theorem installFromDirectory_update_failure_counterexample:
  "fst (storage_updateLibrary memoryStorage (libraryA 1 0 5)
          ((installed (libraryA 1 0 0))\<lparr>faults := [OpUpdateLibrary, OpDeleteLibrary]\<rparr>))
     = Rejected StoreFailure
   \<and> installFromDirectory memoryStorage sourceFiles ''/complete'' False
        ((installed (libraryA 1 0 0))\<lparr>faults := [OpUpdateLibrary, OpDeleteLibrary]\<rparr>)
     = (Inl StoreFailure,
        \<lparr>slots = [(libraryA 1 0 0, [(''js/a.js'', ''old''), (''css/a.css'', ''old'')])],
         journal = [UpdateLibrary (libraryA 1 0 5), DeleteLibrary (nameOf (libraryA 1 0 5))],
         faults = [OpUpdateLibrary, OpDeleteLibrary]\<rparr>)
   \<and> storage_getLibrary memoryStorage (nameOf (libraryA 1 0 5))
        (snd (installFromDirectory memoryStorage sourceFiles ''/complete'' False
                ((installed (libraryA 1 0 0))\<lparr>faults := [OpUpdateLibrary, OpDeleteLibrary]\<rparr>)))
     = Resolved (libraryA 1 0 0)"
  by code_simp

end
